theory Spec2Isabelle
  imports Complex_Main
begin

section \<open>Silent Stride: the routing core\<close>

text \<open>
  A shallow embedding of \<^verbatim>\<open>utils.py\<close>, \<^verbatim>\<open>routing_engine.py\<close> and the edge
  processing of \<^verbatim>\<open>graph_processor.py\<close>.
\<close>

subsection \<open>Python values\<close>

text \<open>
  A Python \<^verbatim>\<open>float\<close> is a finite number, one of the two infinities, or NaN. Finite
  arithmetic is exact here: rounding, overflow to infinity and the sign of zero are not
  modelled, and a decimal literal of the source (\<^verbatim>\<open>0.7\<close>, \<^verbatim>\<open>1e-9\<close>) stands for
  its decimal value. The special values follow IEEE 754, as Python does.

  So \<open>fadd (Fin a) (Fin b)\<close> is \<open>Fin (a + b)\<close> also where a double would overflow
  (\<^verbatim>\<open>1e308 + 1e308\<close> is \<^verbatim>\<open>inf\<close> in Python). A property that an overflow of the
  code would break is therefore stated with a bound that keeps the code's sums finite:
  a sum of non-negative doubles whose exact value is at most \<open>2 ^ 1023\<close>, half the
  range of a double, stays below the overflow threshold \<open>2 ^ 1024 - 2 ^ 970\<close> after
  rounding.
\<close>

datatype pyfloat = Fin real | PInf | NInf | NaN

fun fneg :: "pyfloat \<Rightarrow> pyfloat" where
  "fneg (Fin a) = Fin (- a)"
| "fneg PInf = NInf"
| "fneg NInf = PInf"
| "fneg NaN = NaN"

fun fadd :: "pyfloat \<Rightarrow> pyfloat \<Rightarrow> pyfloat" where
  "fadd (Fin a) (Fin b) = Fin (a + b)"
| "fadd NaN y = NaN"
| "fadd x NaN = NaN"
| "fadd PInf NInf = NaN"
| "fadd NInf PInf = NaN"
| "fadd PInf y = PInf"
| "fadd x PInf = PInf"
| "fadd NInf y = NInf"
| "fadd x NInf = NInf"

definition fsub :: "pyfloat \<Rightarrow> pyfloat \<Rightarrow> pyfloat" where
  "fsub x y = fadd x (fneg y)"

fun fmul :: "pyfloat \<Rightarrow> pyfloat \<Rightarrow> pyfloat" where
  "fmul (Fin a) (Fin b) = Fin (a * b)"
| "fmul NaN y = NaN"
| "fmul x NaN = NaN"
| "fmul PInf (Fin b) = (if b = 0 then NaN else if 0 < b then PInf else NInf)"
| "fmul NInf (Fin b) = (if b = 0 then NaN else if 0 < b then NInf else PInf)"
| "fmul (Fin a) PInf = (if a = 0 then NaN else if 0 < a then PInf else NInf)"
| "fmul (Fin a) NInf = (if a = 0 then NaN else if 0 < a then NInf else PInf)"
| "fmul PInf PInf = PInf"
| "fmul PInf NInf = NInf"
| "fmul NInf PInf = NInf"
| "fmul NInf NInf = PInf"

text \<open>Comparisons: every comparison with NaN is false, except \<^verbatim>\<open>!=\<close>.\<close>

fun flt :: "pyfloat \<Rightarrow> pyfloat \<Rightarrow> bool" where
  "flt (Fin a) (Fin b) = (a < b)"
| "flt NaN y = False"
| "flt x NaN = False"
| "flt x NInf = False"
| "flt PInf y = False"
| "flt NInf y = True"
| "flt (Fin a) PInf = True"

fun feq :: "pyfloat \<Rightarrow> pyfloat \<Rightarrow> bool" where
  "feq (Fin a) (Fin b) = (a = b)"
| "feq PInf PInf = True"
| "feq NInf NInf = True"
| "feq x y = False"

definition fgt :: "pyfloat \<Rightarrow> pyfloat \<Rightarrow> bool" where
  "fgt x y = flt y x"

definition fle :: "pyfloat \<Rightarrow> pyfloat \<Rightarrow> bool" where
  "fle x y = (flt x y \<or> feq x y)"

definition fge :: "pyfloat \<Rightarrow> pyfloat \<Rightarrow> bool" where
  "fge x y = fle y x"

definition fne :: "pyfloat \<Rightarrow> pyfloat \<Rightarrow> bool" where
  "fne x y = (\<not> feq x y)"

text \<open>The exceptions of the source and of the libraries it calls.\<close>

datatype py_error =
    ValueError string
  | TypeError
  | KeyError
  | ZeroDivisionError
  | OverflowError
  | GeocoderTimedOut
  | GeocoderUnavailable
  | NetworkXNoPath
  | NodeNotFound
  | LibraryError

text \<open>
  Division \<^verbatim>\<open>x / y\<close>: Python raises \<^verbatim>\<open>ZeroDivisionError\<close> for a zero
  divisor; \<open>fdiv\<close> is the quotient for the other divisors.
\<close>

fun fdiv :: "pyfloat \<Rightarrow> pyfloat \<Rightarrow> pyfloat" where
  "fdiv (Fin a) (Fin b) = Fin (a / b)"
| "fdiv NaN y = NaN"
| "fdiv x NaN = NaN"
| "fdiv (Fin a) PInf = Fin 0"
| "fdiv (Fin a) NInf = Fin 0"
| "fdiv PInf (Fin b) = (if 0 \<le> b then PInf else NInf)"
| "fdiv NInf (Fin b) = (if 0 \<le> b then NInf else PInf)"
| "fdiv PInf PInf = NaN"
| "fdiv PInf NInf = NaN"
| "fdiv NInf PInf = NaN"
| "fdiv NInf NInf = NaN"

definition py_truediv :: "pyfloat \<Rightarrow> pyfloat \<Rightarrow> py_error + pyfloat" where
  "py_truediv x y = (if feq y (Fin 0) then Inl ZeroDivisionError else Inr (fdiv x y))"

text \<open>
  The values an attribute dictionary holds. A graph read back from GraphML may hold
  strings where the processing wrote numbers and booleans. \<open>PObj\<close> is any other
  object (a list, a geometry).
\<close>

datatype pyval = PNone | PBool bool | PInt int | PFloat pyfloat | PStr string | PObj

type_synonym attrs = "string \<rightharpoonup> pyval"

text \<open>\<^verbatim>\<open>d.get(k, default)\<close> and \<^verbatim>\<open>d.get(k)\<close>.\<close>

definition dict_get :: "attrs \<Rightarrow> string \<Rightarrow> pyval \<Rightarrow> pyval" where
  "dict_get d k dflt = (case d k of None \<Rightarrow> dflt | Some v \<Rightarrow> v)"

definition dict_get_none :: "attrs \<Rightarrow> string \<Rightarrow> pyval" where
  "dict_get_none d k = dict_get d k PNone"

text \<open>
  \<^verbatim>\<open>float(v)\<close>. The built-in parser of float literals is a parameter
  \<open>parse\<close>: it gives \<open>None\<close> where Python raises \<^verbatim>\<open>ValueError\<close>. An integer
  that rounds beyond the largest double raises \<^verbatim>\<open>OverflowError\<close>.
\<close>

type_synonym float_parser = "string \<Rightarrow> pyfloat option"

fun py_float :: "float_parser \<Rightarrow> pyval \<Rightarrow> py_error + pyfloat" where
  "py_float parse PNone = Inl TypeError"
| "py_float parse (PBool b) = Inr (Fin (if b then 1 else 0))"
| "py_float parse (PInt i) =
     (if 2 ^ 1024 - 2 ^ 970 \<le> \<bar>i\<bar> then Inl OverflowError else Inr (Fin (real_of_int i)))"
| "py_float parse (PFloat x) = Inr x"
| "py_float parse (PStr s) =
     (case parse s of None \<Rightarrow> Inl (ValueError ''could not convert string to float'')
      | Some x \<Rightarrow> Inr x)"
| "py_float parse PObj = Inl TypeError"

subsection \<open>utils.py\<close>

text \<open>
  \<^verbatim>\<open>str.lower()\<close>, on the letters A to Z: no other character becomes a letter of
  the five words below.
\<close>

definition lower_char :: "char \<Rightarrow> char" where
  "lower_char c =
     (case map_of (zip ''ABCDEFGHIJKLMNOPQRSTUVWXYZ'' ''abcdefghijklmnopqrstuvwxyz'') c of
        None \<Rightarrow> c
      | Some l \<Rightarrow> l)"

definition lower :: "string \<Rightarrow> string" where
  "lower s = map lower_char s"

fun is_truthy :: "pyval \<Rightarrow> bool" where
  "is_truthy PNone = False"
| "is_truthy (PBool b) = b"
| "is_truthy (PInt i) = (i \<noteq> 0)"
| "is_truthy (PFloat x) = fne x (Fin 0)"
| "is_truthy (PStr s) = (lower s \<in> set [''true'', ''1'', ''yes'', ''t'', ''1.0''])"
| "is_truthy PObj = False"

subsection \<open>routing_engine.py: the engine and the edge cost\<close>

type_synonym node = int

text \<open>
  The multigraph as the list of its edges \<open>(u, v, key, data)\<close>, in the order
  \<^verbatim>\<open>G.edges(keys=True, data=True)\<close> yields them.
\<close>

type_synonym graph = "(node \<times> node \<times> int \<times> attrs) list"

record engine =
  G :: graph
  w_time :: pyfloat
  w_noise :: pyfloat
  prefer_parks :: bool
  avoid_junctions :: bool

definition set_preferences :: "engine \<Rightarrow> pyfloat \<Rightarrow> pyfloat \<Rightarrow> bool \<Rightarrow> bool \<Rightarrow> engine" where
  "set_preferences self wt wn pp aj =
     self\<lparr>w_time := wt, w_noise := wn, prefer_parks := pp, avoid_junctions := aj\<rparr>"

definition get_edge_cost :: "float_parser \<Rightarrow> engine \<Rightarrow> attrs \<Rightarrow> py_error + pyfloat" where
  "get_edge_cost parse self edge_data_dict =
     (case py_float parse (dict_get edge_data_dict ''time_cost_norm'' (PFloat (Fin 1))) of
        Inl e \<Rightarrow> Inl e
      | Inr time_cost \<Rightarrow>
     (case py_float parse (dict_get edge_data_dict ''noise_cost_norm'' (PFloat (Fin 0))) of
        Inl e \<Rightarrow> Inl e
      | Inr noise_cost \<Rightarrow>
        let base_cost0 =
              (if feq (w_noise self) (Fin 1) then noise_cost
               else fadd (fmul (w_time self) time_cost) (fmul (w_noise self) noise_cost));
            base_cost1 =
              (if prefer_parks self \<and> is_truthy (dict_get_none edge_data_dict ''green_cover'')
               then fmul base_cost0 (Fin (7 / 10)) else base_cost0);
            base_cost2 =
              (if avoid_junctions self \<and> is_truthy (dict_get_none edge_data_dict ''is_junction'')
               then fmul base_cost1 (Fin 2) else base_cost1)
        in if feq base_cost2 (Fin 0) \<and> (fgt time_cost (Fin 0) \<or> fgt noise_cost (Fin 0))
           then Inr (Fin (1 / 10 ^ 9))
           else Inr base_cost2))"

text \<open>
  The edge cost in the words of the specification (section 4.1, steps 2 to 7), on the two
  numbers read in step 1 and the two flags.
\<close>

definition spec_base :: "pyfloat \<Rightarrow> pyfloat \<Rightarrow> pyfloat \<Rightarrow> pyfloat \<Rightarrow> pyfloat" where
  "spec_base wt wn t n = (if feq wn (Fin 1) then n else fadd (fmul wt t) (fmul wn n))"

definition spec_parks :: "bool \<Rightarrow> bool \<Rightarrow> pyfloat \<Rightarrow> pyfloat" where
  "spec_parks pp green b = (if pp \<and> green then fmul b (Fin (7 / 10)) else b)"

definition spec_junctions :: "bool \<Rightarrow> bool \<Rightarrow> pyfloat \<Rightarrow> pyfloat" where
  "spec_junctions aj junction b = (if aj \<and> junction then fmul b (Fin 2) else b)"

definition spec_floor :: "pyfloat \<Rightarrow> pyfloat \<Rightarrow> pyfloat \<Rightarrow> pyfloat" where
  "spec_floor t n b =
     (if feq b (Fin 0) \<and> (fgt t (Fin 0) \<or> fgt n (Fin 0)) then Fin (1 / 10 ^ 9) else b)"

definition spec_edge_cost ::
  "pyfloat \<Rightarrow> pyfloat \<Rightarrow> bool \<Rightarrow> bool \<Rightarrow> pyfloat \<Rightarrow> pyfloat \<Rightarrow> bool \<Rightarrow> bool \<Rightarrow> pyfloat" where
  "spec_edge_cost wt wn pp aj t n green junction =
     spec_floor t n (spec_junctions aj junction (spec_parks pp green (spec_base wt wn t n)))"

subsection \<open>routing_engine.py: the time-of-day policy\<close>

text \<open>
  The weight handed to \<^verbatim>\<open>nx.astar_path\<close>: the name of an edge attribute, or the
  bound method \<^verbatim>\<open>self._get_edge_cost\<close>.
\<close>

datatype weight_function = WeightAttr string | WeightGetEdgeCost

definition resolve_hour :: "int \<Rightarrow> int option \<Rightarrow> int" where
  "resolve_hour now selected_hour = (case selected_hour of Some h \<Rightarrow> h | None \<Rightarrow> now)"

definition is_quiet_hours :: "int \<Rightarrow> bool" where
  "is_quiet_hours current_hour =
     ((0 \<le> current_hour \<and> current_hour \<le> 7) \<or>
      (10 \<le> current_hour \<and> current_hour \<le> 11) \<or>
      (15 \<le> current_hour \<and> current_hour \<le> 16) \<or>
      (22 \<le> current_hour \<and> current_hour \<le> 23))"

definition choose_weight :: "engine \<Rightarrow> int \<Rightarrow> weight_function" where
  "choose_weight self current_hour =
     (if is_quiet_hours current_hour then WeightAttr ''time_cost''
      else if fge (w_time self) (Fin (7 / 10)) then WeightAttr ''time_cost''
      else WeightGetEdgeCost)"

subsection \<open>routing_engine.py: the analytics of a path\<close>

text \<open>
  \<^verbatim>\<open>G.get_edge_data(u, v)\<close>: the dictionary from edge key to attributes of the
  parallel edges from \<open>u\<close> to \<open>v\<close>, \<^verbatim>\<open>None\<close> when there is none. Indexing it
  with \<^verbatim>\<open>[0]\<close> raises \<^verbatim>\<open>TypeError\<close> on \<^verbatim>\<open>None\<close> and
  \<^verbatim>\<open>KeyError\<close> when no edge has key 0.
\<close>

definition get_edge_data :: "graph \<Rightarrow> node \<Rightarrow> node \<Rightarrow> (int \<times> attrs) list option" where
  "get_edge_data g u v =
     (let kd = map (\<lambda>e. (fst (snd (snd e)), snd (snd (snd e))))
                 (filter (\<lambda>e. fst e = u \<and> fst (snd e) = v) g)
      in if kd = [] then None else Some kd)"

definition edge_data_0 :: "graph \<Rightarrow> node \<Rightarrow> node \<Rightarrow> py_error + attrs" where
  "edge_data_0 g u v =
     (case get_edge_data g u v of
        None \<Rightarrow> Inl TypeError
      | Some kd \<Rightarrow> (case map_of kd 0 of None \<Rightarrow> Inl KeyError | Some d \<Rightarrow> Inr d))"

record totals =
  total_time_sec :: pyfloat
  total_noise_weighted :: pyfloat
  total_length_m :: pyfloat
  time_in_green :: pyfloat

record analytics =
  time :: pyfloat
  distance :: pyfloat
  avg_noise :: pyfloat
  green_percent :: pyfloat

text \<open>The body of the loop over \<^verbatim>\<open>path_edges\<close>, for one pair \<open>(u, v)\<close>.\<close>

definition analyze_edge ::
  "float_parser \<Rightarrow> graph \<Rightarrow> pyfloat \<Rightarrow> node \<Rightarrow> node \<Rightarrow> totals \<Rightarrow> py_error + totals" where
  "analyze_edge parse g analytics_noise_multiplier u v acc =
     (case edge_data_0 g u v of Inl e \<Rightarrow> Inl e | Inr edge_data \<Rightarrow>
     (case py_float parse (dict_get edge_data ''time_cost'' (PFloat (Fin 0))) of
        Inl e \<Rightarrow> Inl e | Inr current_time \<Rightarrow>
     (case py_float parse (dict_get edge_data ''noise_cost'' (PFloat (Fin 0))) of
        Inl e \<Rightarrow> Inl e | Inr current_noise \<Rightarrow>
     (case py_float parse (dict_get edge_data ''length'' (PFloat (Fin 0))) of
        Inl e \<Rightarrow> Inl e | Inr current_length \<Rightarrow>
        Inr \<lparr>total_time_sec = fadd (total_time_sec acc) current_time,
             total_noise_weighted =
               fadd (total_noise_weighted acc) (fmul current_noise analytics_noise_multiplier),
             total_length_m = fadd (total_length_m acc) current_length,
             time_in_green =
               (if is_truthy (dict_get_none edge_data ''green_cover'')
                then fadd (time_in_green acc) current_time else time_in_green acc)\<rparr>))))"

fun analyze_loop ::
  "float_parser \<Rightarrow> graph \<Rightarrow> pyfloat \<Rightarrow> (node \<times> node) list \<Rightarrow> totals \<Rightarrow> py_error + totals" where
  "analyze_loop parse g m [] acc = Inr acc"
| "analyze_loop parse g m ((u, v) # rest) acc =
     (case analyze_edge parse g m u v acc of
        Inl e \<Rightarrow> Inl e
      | Inr acc' \<Rightarrow> analyze_loop parse g m rest acc')"

definition format_analytics :: "totals \<Rightarrow> py_error + analytics" where
  "format_analytics t =
     (case (if fgt (total_length_m t) (Fin 0)
            then py_truediv (total_noise_weighted t) (total_length_m t)
            else Inr (Fin 0)) of
        Inl e \<Rightarrow> Inl e | Inr avg \<Rightarrow>
     (case (if fgt (total_time_sec t) (Fin 0)
            then (case py_truediv (time_in_green t) (total_time_sec t) of
                    Inl e \<Rightarrow> Inl e | Inr q \<Rightarrow> Inr (fmul q (Fin 100)))
            else Inr (Fin 0)) of
        Inl e \<Rightarrow> Inl e | Inr gp \<Rightarrow>
        Inr \<lparr>time = total_time_sec t, distance = total_length_m t,
             avg_noise = avg, green_percent = gp\<rparr>))"

text \<open>\<^verbatim>\<open>list(zip(path_nodes[:-1], path_nodes[1:]))\<close>\<close>

definition path_edges :: "node list \<Rightarrow> (node \<times> node) list" where
  "path_edges path_nodes = zip (butlast path_nodes) (tl path_nodes)"

definition analyze_path :: "float_parser \<Rightarrow> graph \<Rightarrow> bool \<Rightarrow> node list \<Rightarrow> py_error + analytics" where
  "analyze_path parse g quiet path_nodes =
     (case analyze_loop parse g (if quiet then Fin (7 / 10) else Fin 1) (path_edges path_nodes)
             \<lparr>total_time_sec = Fin 0, total_noise_weighted = Fin 0,
              total_length_m = Fin 0, time_in_green = Fin 0\<rparr> of
        Inl e \<Rightarrow> Inl e
      | Inr t \<Rightarrow> format_analytics t)"

subsection \<open>routing_engine.py: find\_route\<close>

text \<open>
  The collaborators of the engine are parameters: the geocoder (\<^verbatim>\<open>None\<close> for an
  address it cannot resolve, an exception when the service fails), the projection,
  the nearest-node lookup, \<^verbatim>\<open>nx.astar_path\<close>, \<^verbatim>\<open>route_to_gdf\<close> with the
  reprojection of its result, the float parser, and the hour of the wall clock.
\<close>

type_synonym location = "pyfloat \<times> pyfloat"

type_synonym point = "pyfloat \<times> pyfloat"

record 'g env =
  geocode :: "string \<Rightarrow> py_error + location option"
  project_geometry :: "location \<Rightarrow> py_error + point"
  nearest_nodes :: "graph \<Rightarrow> point \<Rightarrow> py_error + node"
  astar_path :: "engine \<Rightarrow> node \<Rightarrow> node \<Rightarrow> weight_function \<Rightarrow> py_error + node list"
  route_to_gdf :: "graph \<Rightarrow> node list \<Rightarrow> py_error + 'g"
  parse_float :: float_parser
  now_hour :: int

text \<open>The calls a query makes to its collaborators, in order.\<close>

datatype event =
    Geocode string
  | ProjectGeometry location
  | NearestNodes point
  | AStarPath node node weight_function
  | RouteToGdf "node list"

record 'g route_result =
  analytics :: analytics
  route_gdf :: 'g
  start_location :: location

text \<open>
  What a query leaves behind: the value returned or the exception raised, the engine
  after the call, and the calls made.
\<close>

record 'g outcome =
  result :: "py_error + 'g route_result"
  self_after :: engine
  calls :: "event list"

definition is_astar_call :: "event \<Rightarrow> bool" where
  "is_astar_call ev = (case ev of AStarPath s t w \<Rightarrow> True | _ \<Rightarrow> False)"

text \<open>Steps 3 to 7, from the two graph nodes on.\<close>

definition find_route_search ::
  "'g env \<Rightarrow> engine \<Rightarrow> location \<Rightarrow> node \<Rightarrow> node \<Rightarrow> int option \<Rightarrow> event list \<Rightarrow> 'g outcome" where
  "find_route_search env self start_loc start_node end_node selected_hour tr =
     (let current_hour = resolve_hour (now_hour env) selected_hour;
          quiet = is_quiet_hours current_hour;
          weight_function = choose_weight self current_hour;
          tr1 = tr @ [AStarPath start_node end_node weight_function]
      in case astar_path env self start_node end_node weight_function of
           Inl e \<Rightarrow> \<lparr>result = Inl e, self_after = self, calls = tr1\<rparr>
         | Inr path_nodes \<Rightarrow>
          (case analyze_path (parse_float env) (G self) quiet path_nodes of
             Inl e \<Rightarrow> \<lparr>result = Inl e, self_after = self, calls = tr1\<rparr>
           | Inr a \<Rightarrow>
            (case route_to_gdf env (G self) path_nodes of
               Inl e \<Rightarrow> \<lparr>result = Inl e, self_after = self,
                          calls = tr1 @ [RouteToGdf path_nodes]\<rparr>
             | Inr gdf \<Rightarrow>
                 \<lparr>result = Inr \<lparr>analytics = a, route_gdf = gdf, start_location = start_loc\<rparr>,
                  self_after = self, calls = tr1 @ [RouteToGdf path_nodes]\<rparr>)))"

text \<open>Step 2, from the two geocoded locations on.\<close>

definition find_route_nodes ::
  "'g env \<Rightarrow> engine \<Rightarrow> location \<Rightarrow> location \<Rightarrow> int option \<Rightarrow> event list \<Rightarrow> 'g outcome" where
  "find_route_nodes env self start_loc end_loc selected_hour tr =
     (case project_geometry env start_loc of
        Inl e \<Rightarrow> \<lparr>result = Inl e, self_after = self, calls = tr @ [ProjectGeometry start_loc]\<rparr>
      | Inr start_point_proj \<Rightarrow>
     (case project_geometry env end_loc of
        Inl e \<Rightarrow> \<lparr>result = Inl e, self_after = self,
                   calls = tr @ [ProjectGeometry start_loc, ProjectGeometry end_loc]\<rparr>
      | Inr end_point_proj \<Rightarrow>
     (case nearest_nodes env (G self) start_point_proj of
        Inl e \<Rightarrow> \<lparr>result = Inl e, self_after = self,
                   calls = tr @ [ProjectGeometry start_loc, ProjectGeometry end_loc,
                                 NearestNodes start_point_proj]\<rparr>
      | Inr start_node \<Rightarrow>
     (case nearest_nodes env (G self) end_point_proj of
        Inl e \<Rightarrow> \<lparr>result = Inl e, self_after = self,
                   calls = tr @ [ProjectGeometry start_loc, ProjectGeometry end_loc,
                                 NearestNodes start_point_proj, NearestNodes end_point_proj]\<rparr>
      | Inr end_node \<Rightarrow>
          find_route_search env self start_loc start_node end_node selected_hour
            (tr @ [ProjectGeometry start_loc, ProjectGeometry end_loc,
                   NearestNodes start_point_proj, NearestNodes end_point_proj])))))"

text \<open>
  Step 1 and the whole query. An address is a string or \<^verbatim>\<open>None\<close>;
  \<^verbatim>\<open>not address\<close> holds for \<^verbatim>\<open>None\<close> and for the empty string.
\<close>

definition not_address :: "string option \<Rightarrow> bool" where
  "not_address a = (case a of None \<Rightarrow> True | Some s \<Rightarrow> s = [])"

definition address_text :: "string option \<Rightarrow> string" where
  "address_text a = (case a of None \<Rightarrow> [] | Some s \<Rightarrow> s)"

definition find_route ::
  "'g env \<Rightarrow> engine \<Rightarrow> string option \<Rightarrow> string option \<Rightarrow> int option \<Rightarrow> 'g outcome" where
  "find_route env self start_address end_address selected_hour =
     (if not_address start_address \<or> not_address end_address
      then \<lparr>result = Inl (ValueError ''Start and end addresses are required.''),
            self_after = self, calls = []\<rparr>
      else
       (case geocode env (address_text start_address) of
          Inl e \<Rightarrow> \<lparr>result = Inl e, self_after = self,
                     calls = [Geocode (address_text start_address)]\<rparr>
        | Inr start_loc \<Rightarrow>
       (case geocode env (address_text end_address) of
          Inl e \<Rightarrow> \<lparr>result = Inl e, self_after = self,
                     calls = [Geocode (address_text start_address),
                              Geocode (address_text end_address)]\<rparr>
        | Inr end_loc \<Rightarrow>
         (case start_loc of
            None \<Rightarrow> \<lparr>result = Inl (ValueError ''Could not geocode one or both addresses.''),
                      self_after = self,
                      calls = [Geocode (address_text start_address),
                               Geocode (address_text end_address)]\<rparr>
          | Some sl \<Rightarrow>
           (case end_loc of
              None \<Rightarrow> \<lparr>result = Inl (ValueError ''Could not geocode one or both addresses.''),
                        self_after = self,
                        calls = [Geocode (address_text start_address),
                                 Geocode (address_text end_address)]\<rparr>
            | Some el \<Rightarrow>
                find_route_nodes env self sl el selected_hour
                  [Geocode (address_text start_address),
                   Geocode (address_text end_address)])))))"

subsection \<open>graph\_processor.py: edge costs and their normalisation\<close>

text \<open>\<^verbatim>\<open>config.py\<close>\<close>

definition DEFAULT_SPEED :: int where
  "DEFAULT_SPEED = 30"

text \<open>A loop whose body may raise: the first exception ends it.\<close>

fun map_err :: "('a \<Rightarrow> py_error + 'b) \<Rightarrow> 'a list \<Rightarrow> py_error + 'b list" where
  "map_err f [] = Inr []"
| "map_err f (x # xs) =
     (case f x of
        Inl e \<Rightarrow> Inl e
      | Inr y \<Rightarrow> (case map_err f xs of Inl e \<Rightarrow> Inl e | Inr ys \<Rightarrow> Inr (y # ys)))"

text \<open>
  \<^verbatim>\<open>road_type in [...]\<close> for a list of strings: only a string can equal one of them
  (after edge simplification the \<^verbatim>\<open>highway\<close> attribute may be a list).
\<close>

definition in_strs :: "pyval \<Rightarrow> string list \<Rightarrow> bool" where
  "in_strs v ws = (case v of PStr s \<Rightarrow> s \<in> set ws | _ \<Rightarrow> False)"

definition noise_score_of :: "pyval \<Rightarrow> int" where
  "noise_score_of road_type =
     (if in_strs road_type [''motorway'', ''primary'', ''trunk''] then 10
      else if in_strs road_type [''secondary'', ''tertiary''] then 7
      else if in_strs road_type [''residential'', ''living_street'', ''unclassified''] then 3
      else 5)"

text \<open>The nodes whose \<^verbatim>\<open>highway\<close> attribute is \<^verbatim>\<open>traffic_signals\<close>.\<close>

definition junction_nodes_of :: "(node \<times> attrs) list \<Rightarrow> node list" where
  "junction_nodes_of nodes =
     map fst (filter (\<lambda>nd. dict_get_none (snd nd) ''highway'' = PStr ''traffic_signals'') nodes)"

text \<open>
  The body of the first loop over the edges. The test of the buffered geometry against
  the park polygons is a parameter \<open>near_park\<close>, asked when the edge has a geometry.
\<close>

definition process_edge ::
  "float_parser \<Rightarrow> (pyval \<Rightarrow> bool) \<Rightarrow> node list \<Rightarrow> node \<times> node \<times> int \<times> attrs
     \<Rightarrow> py_error + (node \<times> node \<times> int \<times> attrs)" where
  "process_edge parse near_park junction_nodes e =
     (case e of (u, v, key, edge_data) \<Rightarrow>
     (case py_float parse (dict_get edge_data ''speed_kph'' (PInt DEFAULT_SPEED)) of
        Inl x \<Rightarrow> Inl x | Inr speed_kmh \<Rightarrow>
     (case py_float parse (dict_get edge_data ''length'' (PFloat (Fin 0))) of
        Inl x \<Rightarrow> Inl x | Inr length_m \<Rightarrow>
     (case (if feq speed_kmh (Fin 0) then Inr PInf
            else (case py_truediv length_m (Fin 1000) of
                    Inl x \<Rightarrow> Inl x
                  | Inr km \<Rightarrow> (case py_truediv km speed_kmh of
                                 Inl x \<Rightarrow> Inl x
                               | Inr h \<Rightarrow> Inr (fmul h (Fin 3600))))) of
        Inl x \<Rightarrow> Inl x | Inr current_time_cost \<Rightarrow>
        let d1 = edge_data(''time_cost'' \<mapsto> PFloat current_time_cost);
            road_type = dict_get d1 ''highway'' (PStr ''residential'');
            noise_score = noise_score_of road_type;
            d2 = d1(''noise_cost'' \<mapsto> PFloat (fmul (Fin (real_of_int noise_score)) length_m));
            d3 = d2(''length'' \<mapsto> PFloat length_m);
            road_geom = dict_get_none d3 ''geometry'';
            d4 = d3(''green_cover'' \<mapsto>
                      PBool (case road_geom of PNone \<Rightarrow> False | _ \<Rightarrow> near_park road_geom));
            d5 = d4(''is_junction'' \<mapsto>
                      (if u \<in> set junction_nodes \<or> v \<in> set junction_nodes then PBool True
                       else dict_get d4 ''junction'' (PBool False)))
        in Inr (u, v, key, d5)))))"

text \<open>\<^verbatim>\<open>float(data[k])\<close>: \<^verbatim>\<open>KeyError\<close> when the attribute is absent.\<close>

definition edge_float :: "float_parser \<Rightarrow> string \<Rightarrow> node \<times> node \<times> int \<times> attrs \<Rightarrow> py_error + pyfloat" where
  "edge_float parse k e =
     (case snd (snd (snd e)) k of None \<Rightarrow> Inl KeyError | Some v \<Rightarrow> py_float parse v)"

text \<open>
  \<^verbatim>\<open>min\<close> and \<^verbatim>\<open>max\<close> of a list: the first element, replaced by each later one
  that compares smaller (greater); \<^verbatim>\<open>ValueError\<close> on the empty list.
\<close>

fun py_min :: "pyfloat list \<Rightarrow> py_error + pyfloat" where
  "py_min [] = Inl (ValueError ''min() arg is an empty sequence'')"
| "py_min (x # xs) = Inr (foldl (\<lambda>m y. if flt y m then y else m) x xs)"

fun py_max :: "pyfloat list \<Rightarrow> py_error + pyfloat" where
  "py_max [] = Inl (ValueError ''max() arg is an empty sequence'')"
| "py_max (x # xs) = Inr (foldl (\<lambda>m y. if fgt y m then y else m) x xs)"

definition cost_range :: "pyfloat \<Rightarrow> pyfloat \<Rightarrow> pyfloat" where
  "cost_range min_c max_c =
     (if fgt (fsub max_c min_c) (Fin 0) then fsub max_c min_c else Fin 1)"

text \<open>The body of the second loop over the edges.\<close>

definition normalize_edge ::
  "float_parser \<Rightarrow> pyfloat \<Rightarrow> pyfloat \<Rightarrow> pyfloat \<Rightarrow> pyfloat \<Rightarrow> node \<times> node \<times> int \<times> attrs
     \<Rightarrow> py_error + (node \<times> node \<times> int \<times> attrs)" where
  "normalize_edge parse min_time range_time min_noise range_noise e =
     (case edge_float parse ''time_cost'' e of Inl x \<Rightarrow> Inl x | Inr current_time_cost \<Rightarrow>
     (case edge_float parse ''noise_cost'' e of Inl x \<Rightarrow> Inl x | Inr current_noise_cost \<Rightarrow>
     (case (if feq current_time_cost PInf then Inr (Fin 1)
            else py_truediv (fsub current_time_cost min_time) range_time) of
        Inl x \<Rightarrow> Inl x | Inr time_cost_norm \<Rightarrow>
     (case py_truediv (fsub current_noise_cost min_noise) range_noise of
        Inl x \<Rightarrow> Inl x | Inr noise_cost_norm \<Rightarrow>
        Inr (fst e, fst (snd e), fst (snd (snd e)),
             (snd (snd (snd e)))(''time_cost_norm'' \<mapsto> PFloat time_cost_norm,
                                 ''noise_cost_norm'' \<mapsto> PFloat noise_cost_norm))))))"

definition normalize_costs :: "float_parser \<Rightarrow> graph \<Rightarrow> py_error + graph" where
  "normalize_costs parse g =
     (case map_err (edge_float parse ''time_cost'') g of Inl x \<Rightarrow> Inl x | Inr all_times \<Rightarrow>
     (case map_err (edge_float parse ''noise_cost'') g of Inl x \<Rightarrow> Inl x | Inr noises \<Rightarrow>
      let times = filter (\<lambda>t. fne t PInf) all_times in
     (case py_min times of Inl x \<Rightarrow> Inl x | Inr min_time \<Rightarrow>
     (case py_max times of Inl x \<Rightarrow> Inl x | Inr max_time \<Rightarrow>
     (case py_min noises of Inl x \<Rightarrow> Inl x | Inr min_noise \<Rightarrow>
     (case py_max noises of Inl x \<Rightarrow> Inl x | Inr max_noise \<Rightarrow>
        map_err (normalize_edge parse min_time (cost_range min_time max_time)
                   min_noise (cost_range min_noise max_noise)) g))))))"

text \<open>
  \<^verbatim>\<open>load_and_process_graph\<close> between the download and the save: the two loops.
\<close>

definition process_graph ::
  "float_parser \<Rightarrow> (pyval \<Rightarrow> bool) \<Rightarrow> (node \<times> attrs) list \<Rightarrow> graph \<Rightarrow> py_error + graph" where
  "process_graph parse near_park nodes g =
     (case map_err (process_edge parse near_park (junction_nodes_of nodes)) g of
        Inl x \<Rightarrow> Inl x
      | Inr g1 \<Rightarrow> normalize_costs parse g1)"

text \<open>An attribute of an edge, and of the outcome of processing one.\<close>

definition edge_attr :: "node \<times> node \<times> int \<times> attrs \<Rightarrow> string \<Rightarrow> pyval option" where
  "edge_attr e k = snd (snd (snd e)) k"

definition result_attr ::
  "py_error + (node \<times> node \<times> int \<times> attrs) \<Rightarrow> string \<Rightarrow> pyval option" where
  "result_attr r k = (case r of Inl x \<Rightarrow> None | Inr e \<Rightarrow> edge_attr e k)"

subsection \<open>Notions the properties are stated with\<close>

text \<open>The sum of a list of floats.\<close>

fun fsum :: "pyfloat list \<Rightarrow> pyfloat" where
  "fsum [] = Fin 0"
| "fsum (x # xs) = fadd x (fsum xs)"

text \<open>A finite, non-negative float.\<close>

fun fin_nonneg :: "pyfloat \<Rightarrow> bool" where
  "fin_nonneg (Fin a) = (0 \<le> a)"
| "fin_nonneg x = False"

text \<open>
  What the analytics loop reads of the step from \<open>u\<close> to \<open>v\<close>: the raw
  \<^verbatim>\<open>time_cost\<close>, \<^verbatim>\<open>noise_cost\<close> and \<^verbatim>\<open>length\<close> (0.0 when absent) and the
  truthiness of \<^verbatim>\<open>green_cover\<close>, of the edge with key 0.
\<close>

record reading =
  r_time :: pyfloat
  r_noise :: pyfloat
  r_length :: pyfloat
  r_green :: bool

definition read_edge :: "float_parser \<Rightarrow> graph \<Rightarrow> node \<times> node \<Rightarrow> py_error + reading" where
  "read_edge parse g uv =
     (case edge_data_0 g (fst uv) (snd uv) of Inl e \<Rightarrow> Inl e | Inr edge_data \<Rightarrow>
     (case py_float parse (dict_get edge_data ''time_cost'' (PFloat (Fin 0))) of
        Inl e \<Rightarrow> Inl e | Inr t \<Rightarrow>
     (case py_float parse (dict_get edge_data ''noise_cost'' (PFloat (Fin 0))) of
        Inl e \<Rightarrow> Inl e | Inr n \<Rightarrow>
     (case py_float parse (dict_get edge_data ''length'' (PFloat (Fin 0))) of
        Inl e \<Rightarrow> Inl e | Inr l \<Rightarrow>
        Inr \<lparr>r_time = t, r_noise = n, r_length = l,
             r_green = is_truthy (dict_get_none edge_data ''green_cover'')\<rparr>))))"

text \<open>
  The weight \<^verbatim>\<open>nx.astar_path\<close> gives the step from \<open>u\<close> to \<open>v\<close> when the weight
  is the name of an attribute: on a multigraph, the least \<^verbatim>\<open>d.get(name, 1)\<close> over
  the parallel edges from \<open>u\<close> to \<open>v\<close> (networkx's weight function; the values
  are taken as floats). The edge the search traverses is one of least weight.
\<close>

definition astar_step_weight ::
  "float_parser \<Rightarrow> graph \<Rightarrow> string \<Rightarrow> node \<Rightarrow> node \<Rightarrow> py_error + pyfloat" where
  "astar_step_weight parse g name u v =
     (case get_edge_data g u v of
        None \<Rightarrow> Inl KeyError
      | Some kd \<Rightarrow>
         (case map_err (\<lambda>kv. py_float parse (dict_get (snd kv) name (PInt 1))) kd of
            Inl e \<Rightarrow> Inl e
          | Inr ws \<Rightarrow> py_min ws))"

text \<open>The keys of the parallel edges from \<open>u\<close> to \<open>v\<close> whose attribute has that weight.\<close>

definition edges_of_weight ::
  "float_parser \<Rightarrow> graph \<Rightarrow> string \<Rightarrow> node \<Rightarrow> node \<Rightarrow> pyfloat \<Rightarrow> int list" where
  "edges_of_weight parse g name u v w =
     (case get_edge_data g u v of
        None \<Rightarrow> []
      | Some kd \<Rightarrow>
          map fst (filter (\<lambda>kv. py_float parse (dict_get (snd kv) name (PInt 1)) = Inr w) kd))"

text \<open>The finite values of a list of floats, as numbers.\<close>

fun fin_values :: "pyfloat list \<Rightarrow> real list" where
  "fin_values [] = []"
| "fin_values (Fin a # xs) = a # fin_values xs"
| "fin_values (x # xs) = fin_values xs"

fun is_fin :: "pyfloat \<Rightarrow> bool" where
  "is_fin (Fin a) = True"
| "is_fin x = False"

text \<open>
  Min-max normalisation in the words of the specification: \<open>(x - min) / (max - min)\<close>,
  with the denominator 1.0 when the range is zero; 1.0 for an infinite time.
\<close>

definition spec_norm :: "real \<Rightarrow> real \<Rightarrow> real \<Rightarrow> real" where
  "spec_norm lo hi x = (x - lo) / (if hi - lo = 0 then 1 else hi - lo)"

fun spec_time_norm :: "real \<Rightarrow> real \<Rightarrow> pyfloat \<Rightarrow> pyfloat" where
  "spec_time_norm lo hi (Fin a) = Fin (spec_norm lo hi a)"
| "spec_time_norm lo hi PInf = Fin 1"
| "spec_time_norm lo hi x = NaN"

fun spec_noise_norm :: "real \<Rightarrow> real \<Rightarrow> pyfloat \<Rightarrow> pyfloat" where
  "spec_noise_norm lo hi (Fin a) = Fin (spec_norm lo hi a)"
| "spec_noise_norm lo hi x = NaN"

text \<open>An edge with the two normalised costs stored.\<close>

definition with_norms ::
  "node \<times> node \<times> int \<times> attrs \<Rightarrow> pyfloat \<Rightarrow> pyfloat \<Rightarrow> node \<times> node \<times> int \<times> attrs" where
  "with_norms e tn nn =
     (fst e, fst (snd e), fst (snd (snd e)),
      (snd (snd (snd e)))(''time_cost_norm'' \<mapsto> PFloat tn, ''noise_cost_norm'' \<mapsto> PFloat nn))"

section \<open>Properties\<close>

subsection \<open>Auxiliary facts\<close>

lemma find_route_search_self_after:
  "self_after (find_route_search env self sl s t sh tr) = self"
  by (simp add: find_route_search_def Let_def split: sum.split)

lemma find_route_nodes_self_after:
  "self_after (find_route_nodes env self sl el sh tr) = self"
  by (simp add: find_route_nodes_def find_route_search_self_after split: sum.split)

lemma find_route_self_after:
  "self_after (find_route env self sa ea sh) = self"
  by (simp add: find_route_def find_route_nodes_self_after split: sum.split option.split)


subsection \<open>The edge cost and the policy\<close>

text \<open>
  C1. For every attribute dictionary and every preference vector, the edge cost is the
  algorithm of the specification: \<open>t\<close> is \<^verbatim>\<open>time_cost_norm\<close> (1.0 when absent),
  \<open>n\<close> is \<^verbatim>\<open>noise_cost_norm\<close> (0.0 when absent); the base is \<open>n\<close> when
  \<open>w_noise = 1.0\<close> and the blend otherwise, times 0.7 for a preferred green edge, then
  times 2.0 for an avoided junction, and \<^verbatim>\<open>1e-9\<close> where that is zero while
  \<open>t > 0\<close> or \<open>n > 0\<close>. An attribute that \<^verbatim>\<open>float()\<close> rejects raises its
  error, the time attribute first.
\<close>

theorem get_edge_cost_is_spec:
  "get_edge_cost parse self d =
     (case py_float parse (dict_get d ''time_cost_norm'' (PFloat (Fin 1))) of
        Inl e \<Rightarrow> Inl e
      | Inr t \<Rightarrow>
     (case py_float parse (dict_get d ''noise_cost_norm'' (PFloat (Fin 0))) of
        Inl e \<Rightarrow> Inl e
      | Inr n \<Rightarrow>
          Inr (spec_edge_cost (w_time self) (w_noise self) (prefer_parks self)
                 (avoid_junctions self) t n
                 (is_truthy (dict_get_none d ''green_cover''))
                 (is_truthy (dict_get_none d ''is_junction'')))))"
  unfolding get_edge_cost_def spec_edge_cost_def spec_floor_def spec_junctions_def
      spec_parks_def spec_base_def Let_def
  by (cases "py_float parse (dict_get d ''time_cost_norm'' (PFloat (Fin 1)))";
      cases "py_float parse (dict_get d ''noise_cost_norm'' (PFloat (Fin 0)))"; auto)

text \<open>
  C2. For every resolved hour from 0 to 23 and every preference vector, the search
  weight is the raw \<^verbatim>\<open>time_cost\<close> attribute when the hour is quiet (0 to 7, 10, 11,
  15, 16, 22, 23) and when the hour is normal with \<open>w_time \<ge> 0.70\<close>; it is the blended
  edge cost otherwise, which for a weight that is a number means: in a normal hour with
  \<open>w_time < 0.70\<close>. The hour is the caller's when given and the wall clock's otherwise,
  and this weight is the one the query hands to the search.
\<close>

theorem choose_weight_policy:
  "choose_weight self h =
     (if h \<in> {0..7} \<union> {10, 11} \<union> {15, 16} \<union> {22, 23} then WeightAttr ''time_cost''
      else if fge (w_time self) (Fin (7 / 10)) then WeightAttr ''time_cost''
      else WeightGetEdgeCost)
   \<and> fge (Fin w) (Fin (7 / 10)) = (7 / 10 \<le> w)
   \<and> resolve_hour now (Some c) = c \<and> resolve_hour now None = now
   \<and> calls (find_route_search env self start_loc s t selected_hour tr) ! length tr =
       AStarPath s t (choose_weight self (resolve_hour (now_hour env) selected_hour))"
proof -
  have quiet: "is_quiet_hours h = (h \<in> {0..7} \<union> {10, 11} \<union> {15, 16} \<union> {22, 23})"
    unfolding is_quiet_hours_def by auto
  have "calls (find_route_search env self start_loc s t selected_hour tr) ! length tr =
       AStarPath s t (choose_weight self (resolve_hour (now_hour env) selected_hour))"
    by (simp add: find_route_search_def Let_def nth_append split: sum.split)
  moreover have "fge (Fin w) (Fin (7 / 10)) = (7 / 10 \<le> w)"
    by (auto simp: fge_def fle_def)
  ultimately show ?thesis
    by (simp add: choose_weight_def quiet resolve_hour_def)
qed

text \<open>
  C5, as stated: with \<open>w_noise = 1.0\<close> the edge cost is \<^verbatim>\<open>noise_cost_norm\<close>. It is
  not on a green edge when parks are preferred: the cost of an edge with
  \<^verbatim>\<open>noise_cost_norm = 1.0\<close> is 0.7.
\<close>

theorem pure_peace_counterexample:
  "get_edge_cost (\<lambda>s. None)
     \<lparr>G = [], w_time = Fin 0, w_noise = Fin 1, prefer_parks = True, avoid_junctions = False\<rparr>
     [''time_cost_norm'' \<mapsto> PFloat (Fin 0), ''noise_cost_norm'' \<mapsto> PFloat (Fin 1),
      ''green_cover'' \<mapsto> PBool True]
   = Inr (Fin (7 / 10))
   \<and> Fin (7 / 10) \<noteq> Fin 1"
  by (simp add: get_edge_cost_def dict_get_def dict_get_none_def)

text \<open>
  C5, amended. With \<open>w_noise = 1.0\<close> exactly the edge cost does not depend on
  \<open>w_time\<close>: it is \<^verbatim>\<open>noise_cost_norm\<close>, times 0.7 on a green edge when parks are
  preferred, times 2.0 on a junction edge when junctions are avoided, and \<^verbatim>\<open>1e-9\<close>
  when that is zero while one of the normalised costs is positive. So it is
  \<^verbatim>\<open>noise_cost_norm\<close> itself when no modifier applies and the floor does not.
\<close>

theorem pure_peace_cost:
  assumes "w_noise self = Fin 1"
    and "py_float parse (dict_get d ''time_cost_norm'' (PFloat (Fin 1))) = Inr t"
    and "py_float parse (dict_get d ''noise_cost_norm'' (PFloat (Fin 0))) = Inr n"
    and "green = is_truthy (dict_get_none d ''green_cover'')"
    and "junction = is_truthy (dict_get_none d ''is_junction'')"
  shows "get_edge_cost parse self d =
           Inr (let b1 = (if prefer_parks self \<and> green then fmul n (Fin (7 / 10)) else n);
                    b2 = (if avoid_junctions self \<and> junction then fmul b1 (Fin 2) else b1)
                in if feq b2 (Fin 0) \<and> (fgt t (Fin 0) \<or> fgt n (Fin 0))
                   then Fin (1 / 10 ^ 9) else b2)
         \<and> get_edge_cost parse (self\<lparr>w_time := wt\<rparr>) d = get_edge_cost parse self d
         \<and> ((\<not> (prefer_parks self \<and> green) \<and> \<not> (avoid_junctions self \<and> junction)
              \<and> \<not> (feq n (Fin 0) \<and> fgt t (Fin 0)))
             \<longrightarrow> get_edge_cost parse self d = Inr n)"
proof -
  have pos: "\<not> (feq n (Fin 0) \<and> fgt n (Fin 0))"
    by (cases n) (auto simp: fgt_def)
  show ?thesis
    using assms pos by (auto simp: get_edge_cost_def Let_def)
qed

theorem pure_peace_cost_witness:
  "get_edge_cost (\<lambda>s. None)
     \<lparr>G = [], w_time = Fin (1 / 4), w_noise = Fin 1, prefer_parks = False,
      avoid_junctions = True\<rparr>
     [''noise_cost_norm'' \<mapsto> PFloat (Fin (1 / 2)), ''is_junction'' \<mapsto> PStr ''yes'']
   = Inr (Fin 1)"
  using pure_peace_cost [of
      "\<lparr>G = [], w_time = Fin (1 / 4), w_noise = Fin 1, prefer_parks = False,
        avoid_junctions = True\<rparr>"
      "\<lambda>s. None"
      "[''noise_cost_norm'' \<mapsto> PFloat (Fin (1 / 2)), ''is_junction'' \<mapsto> PStr ''yes'']"
      "Fin 1" "Fin (1 / 2)" False True "Fin 0"]
  by (simp add: dict_get_def dict_get_none_def lower_def lower_char_def fgt_def)

text \<open>
  C10. \<^verbatim>\<open>set_preferences\<close> stores its four arguments as they are and checks
  nothing: whatever the weights (negative, above 1, not summing to 1), the fields hold
  them, the graph is untouched, a query leaves them in place, and the policy and the edge
  cost of the next query read these very values.
\<close>

theorem set_preferences_verbatim:
  "w_time (set_preferences self wt wn pp aj) = wt
   \<and> w_noise (set_preferences self wt wn pp aj) = wn
   \<and> prefer_parks (set_preferences self wt wn pp aj) = pp
   \<and> avoid_junctions (set_preferences self wt wn pp aj) = aj
   \<and> G (set_preferences self wt wn pp aj) = G self
   \<and> self_after (find_route env (set_preferences self wt wn pp aj) sa ea sh) =
       set_preferences self wt wn pp aj
   \<and> choose_weight (set_preferences self wt wn pp aj) h =
       (if is_quiet_hours h \<or> fge wt (Fin (7 / 10)) then WeightAttr ''time_cost''
        else WeightGetEdgeCost)
   \<and> get_edge_cost parse (set_preferences self wt wn pp aj) d =
       (case py_float parse (dict_get d ''time_cost_norm'' (PFloat (Fin 1))) of
          Inl e \<Rightarrow> Inl e
        | Inr t \<Rightarrow>
       (case py_float parse (dict_get d ''noise_cost_norm'' (PFloat (Fin 0))) of
          Inl e \<Rightarrow> Inl e
        | Inr n \<Rightarrow>
            Inr (spec_edge_cost wt wn pp aj t n
                   (is_truthy (dict_get_none d ''green_cover''))
                   (is_truthy (dict_get_none d ''is_junction'')))))"
proof -
  have "get_edge_cost parse (set_preferences self wt wn pp aj) d =
       (case py_float parse (dict_get d ''time_cost_norm'' (PFloat (Fin 1))) of
          Inl e \<Rightarrow> Inl e
        | Inr t \<Rightarrow>
       (case py_float parse (dict_get d ''noise_cost_norm'' (PFloat (Fin 0))) of
          Inl e \<Rightarrow> Inl e
        | Inr n \<Rightarrow>
            Inr (spec_edge_cost wt wn pp aj t n
                   (is_truthy (dict_get_none d ''green_cover''))
                   (is_truthy (dict_get_none d ''is_junction'')))))"
    unfolding get_edge_cost_def spec_edge_cost_def spec_floor_def spec_junctions_def
      spec_parks_def spec_base_def Let_def set_preferences_def
    by (cases "py_float parse (dict_get d ''time_cost_norm'' (PFloat (Fin 1)))";
        cases "py_float parse (dict_get d ''noise_cost_norm'' (PFloat (Fin 0)))"; auto)
  moreover have "choose_weight (set_preferences self wt wn pp aj) h =
       (if is_quiet_hours h \<or> fge wt (Fin (7 / 10)) then WeightAttr ''time_cost''
        else WeightGetEdgeCost)"
    by (simp add: choose_weight_def set_preferences_def)
  ultimately show ?thesis
    by (simp add: set_preferences_def find_route_self_after)
qed

text \<open>
  C8, as stated: a query for which geocoding returns no location for either address
  raises \<^verbatim>\<open>ValueError\<close>. It does not when the other look-up fails: both look-ups
  run before the test of their results, so with no location for the start address and a
  geocoder that times out on the end address the query raises the geocoder's error.
\<close>

theorem find_route_geocoder_counterexample:
  "geocode
     \<lparr>geocode = (\<lambda>a. if a = ''Nowhere'' then Inr None else Inl GeocoderTimedOut),
      project_geometry = (\<lambda>l. Inr l), nearest_nodes = (\<lambda>g p. Inr 1),
      astar_path = (\<lambda>e s t w. Inr [1]), route_to_gdf = (\<lambda>g p. Inr ()),
      parse_float = (\<lambda>s. None), now_hour = 9\<rparr> ''Nowhere'' = Inr None
   \<and> result (find_route
      \<lparr>geocode = (\<lambda>a. if a = ''Nowhere'' then Inr None else Inl GeocoderTimedOut),
       project_geometry = (\<lambda>l. Inr l), nearest_nodes = (\<lambda>g p. Inr 1),
       astar_path = (\<lambda>e s t w. Inr [1]), route_to_gdf = (\<lambda>g p. Inr ()),
       parse_float = (\<lambda>s. None), now_hour = 9\<rparr>
      \<lparr>G = [], w_time = Fin 1, w_noise = Fin 0, prefer_parks = False, avoid_junctions = False\<rparr>
      (Some ''Nowhere'') (Some ''Times Square'') None)
     = Inl GeocoderTimedOut
   \<and> GeocoderTimedOut \<noteq> ValueError ''Could not geocode one or both addresses.''
   \<and> GeocoderTimedOut \<noteq> ValueError ''Start and end addresses are required.''"
  by (simp add: find_route_def not_address_def address_text_def)

text \<open>
  C8, amended. A query whose start or end address is empty or \<^verbatim>\<open>None\<close> raises
  \<^verbatim>\<open>ValueError\<close> before any collaborator is called. A query with two addresses for
  which both look-ups return, one of them with no location, raises \<^verbatim>\<open>ValueError\<close>
  after the two look-ups. When a look-up itself raises, the query raises that error: the
  first look-up's at once, the second's whatever the first returned. In all these cases
  no A* search has run, and a search runs only after both addresses were given and both
  were resolved to a location. Every query, failing or not, leaves the engine as it was:
  the graph and the four preferences.
\<close>

theorem find_route_input_errors:
  "(not_address sa \<or> not_address ea \<longrightarrow>
      result (find_route env self sa ea sh) =
        Inl (ValueError ''Start and end addresses are required.'')
      \<and> calls (find_route env self sa ea sh) = [])
   \<and> (\<not> not_address sa \<and> \<not> not_address ea
        \<and> geocode env (address_text sa) = Inr sl \<and> geocode env (address_text ea) = Inr el
        \<and> (sl = None \<or> el = None) \<longrightarrow>
      result (find_route env self sa ea sh) =
        Inl (ValueError ''Could not geocode one or both addresses.'')
      \<and> calls (find_route env self sa ea sh) =
          [Geocode (address_text sa), Geocode (address_text ea)]
      \<and> filter is_astar_call (calls (find_route env self sa ea sh)) = [])
   \<and> (\<not> not_address sa \<and> \<not> not_address ea
        \<and> geocode env (address_text sa) = Inl err \<longrightarrow>
      result (find_route env self sa ea sh) = Inl err
      \<and> calls (find_route env self sa ea sh) = [Geocode (address_text sa)])
   \<and> (\<not> not_address sa \<and> \<not> not_address ea
        \<and> geocode env (address_text sa) = Inr sl \<and> geocode env (address_text ea) = Inl err
        \<longrightarrow>
      result (find_route env self sa ea sh) = Inl err
      \<and> calls (find_route env self sa ea sh) =
          [Geocode (address_text sa), Geocode (address_text ea)])
   \<and> (filter is_astar_call (calls (find_route env self sa ea sh)) \<noteq> [] \<longrightarrow>
        \<not> not_address sa \<and> \<not> not_address ea
        \<and> (\<exists>l1 l2. geocode env (address_text sa) = Inr (Some l1)
                    \<and> geocode env (address_text ea) = Inr (Some l2)))
   \<and> self_after (find_route env self sa ea sh) = self
   \<and> G (self_after (find_route env self sa ea sh)) = G self
   \<and> w_time (self_after (find_route env self sa ea sh)) = w_time self
   \<and> w_noise (self_after (find_route env self sa ea sh)) = w_noise self
   \<and> prefer_parks (self_after (find_route env self sa ea sh)) = prefer_parks self
   \<and> avoid_junctions (self_after (find_route env self sa ea sh)) = avoid_junctions self"
proof -
  have a: "not_address sa \<or> not_address ea \<Longrightarrow>
      result (find_route env self sa ea sh) =
        Inl (ValueError ''Start and end addresses are required.'')
      \<and> calls (find_route env self sa ea sh) = []"
    by (simp add: find_route_def)
  have b: "\<not> not_address sa \<Longrightarrow> \<not> not_address ea \<Longrightarrow>
      geocode env (address_text sa) = Inr sl \<Longrightarrow> geocode env (address_text ea) = Inr el \<Longrightarrow>
      sl = None \<or> el = None \<Longrightarrow>
      result (find_route env self sa ea sh) =
        Inl (ValueError ''Could not geocode one or both addresses.'')
      \<and> calls (find_route env self sa ea sh) =
          [Geocode (address_text sa), Geocode (address_text ea)]
      \<and> filter is_astar_call (calls (find_route env self sa ea sh)) = []"
    by (auto simp: find_route_def is_astar_call_def split: option.split)
  have c: "filter is_astar_call (calls (find_route env self sa ea sh)) \<noteq> [] \<Longrightarrow>
        \<not> not_address sa \<and> \<not> not_address ea
        \<and> (\<exists>l1 l2. geocode env (address_text sa) = Inr (Some l1)
                    \<and> geocode env (address_text ea) = Inr (Some l2))"
    by (auto simp: find_route_def is_astar_call_def split: if_splits sum.splits option.splits)
  have d: "\<not> not_address sa \<Longrightarrow> \<not> not_address ea \<Longrightarrow>
      geocode env (address_text sa) = Inl err \<Longrightarrow>
      result (find_route env self sa ea sh) = Inl err
      \<and> calls (find_route env self sa ea sh) = [Geocode (address_text sa)]"
    by (simp add: find_route_def)
  have e: "\<not> not_address sa \<Longrightarrow> \<not> not_address ea \<Longrightarrow>
      geocode env (address_text sa) = Inr sl \<Longrightarrow> geocode env (address_text ea) = Inl err \<Longrightarrow>
      result (find_route env self sa ea sh) = Inl err
      \<and> calls (find_route env self sa ea sh) =
          [Geocode (address_text sa), Geocode (address_text ea)]"
    by (simp add: find_route_def)
  show ?thesis
    using a b c d e unfolding find_route_self_after by blast
qed

theorem find_route_input_errors_witness:
  "result (find_route
      \<lparr>geocode = (\<lambda>a. if a = ''Nowhere'' then Inr None
                       else if a = ''Offline'' then Inl GeocoderUnavailable
                       else Inr (Some (Fin 40, Fin (- 74)))),
       project_geometry = (\<lambda>l. Inr l), nearest_nodes = (\<lambda>g p. Inr 1),
       astar_path = (\<lambda>e s t w. Inr [1]), route_to_gdf = (\<lambda>g p. Inr ()),
       parse_float = (\<lambda>s. None), now_hour = 9\<rparr>
      \<lparr>G = [], w_time = Fin 1, w_noise = Fin 0, prefer_parks = False, avoid_junctions = False\<rparr>
      (Some ''Times Square'') (Some ''Nowhere'') None)
   = Inl (ValueError ''Could not geocode one or both addresses.'')
   \<and> result (find_route
      \<lparr>geocode = (\<lambda>a. if a = ''Nowhere'' then Inr None
                       else if a = ''Offline'' then Inl GeocoderUnavailable
                       else Inr (Some (Fin 40, Fin (- 74)))),
       project_geometry = (\<lambda>l. Inr l), nearest_nodes = (\<lambda>g p. Inr 1),
       astar_path = (\<lambda>e s t w. Inr [1]), route_to_gdf = (\<lambda>g p. Inr ()),
       parse_float = (\<lambda>s. None), now_hour = 9\<rparr>
      \<lparr>G = [], w_time = Fin 1, w_noise = Fin 0, prefer_parks = False, avoid_junctions = False\<rparr>
      (Some []) None (Some 3))
   = Inl (ValueError ''Start and end addresses are required.'')
   \<and> result (find_route
      \<lparr>geocode = (\<lambda>a. if a = ''Nowhere'' then Inr None
                       else if a = ''Offline'' then Inl GeocoderUnavailable
                       else Inr (Some (Fin 40, Fin (- 74)))),
       project_geometry = (\<lambda>l. Inr l), nearest_nodes = (\<lambda>g p. Inr 1),
       astar_path = (\<lambda>e s t w. Inr [1]), route_to_gdf = (\<lambda>g p. Inr ()),
       parse_float = (\<lambda>s. None), now_hour = 9\<rparr>
      \<lparr>G = [], w_time = Fin 1, w_noise = Fin 0, prefer_parks = False, avoid_junctions = False\<rparr>
      (Some ''Nowhere'') (Some ''Offline'') None)
   = Inl GeocoderUnavailable"
  using
    find_route_input_errors [where sa = "Some ''Times Square''" and ea = "Some ''Nowhere''"
      and env = "\<lparr>geocode = (\<lambda>a. if a = ''Nowhere'' then Inr None
                       else if a = ''Offline'' then Inl GeocoderUnavailable
                       else Inr (Some (Fin 40, Fin (- 74)))),
       project_geometry = (\<lambda>l. Inr l), nearest_nodes = (\<lambda>g p. Inr 1),
       astar_path = (\<lambda>e s t w. Inr [1]), route_to_gdf = (\<lambda>g p. Inr ()),
       parse_float = (\<lambda>s. None), now_hour = 9\<rparr>"
      and self = "\<lparr>G = [], w_time = Fin 1, w_noise = Fin 0, prefer_parks = False,
        avoid_junctions = False\<rparr>"
      and sh = None and sl = "Some (Fin 40, Fin (- 74))" and el = None
      and err = GeocoderUnavailable]
    find_route_input_errors [where sa = "Some []" and ea = None
      and env = "\<lparr>geocode = (\<lambda>a. if a = ''Nowhere'' then Inr None
                       else if a = ''Offline'' then Inl GeocoderUnavailable
                       else Inr (Some (Fin 40, Fin (- 74)))),
       project_geometry = (\<lambda>l. Inr l), nearest_nodes = (\<lambda>g p. Inr 1),
       astar_path = (\<lambda>e s t w. Inr [1]), route_to_gdf = (\<lambda>g p. Inr ()),
       parse_float = (\<lambda>s. None), now_hour = 9\<rparr>"
      and self = "\<lparr>G = [], w_time = Fin 1, w_noise = Fin 0, prefer_parks = False,
        avoid_junctions = False\<rparr>"
      and sh = "Some 3" and sl = None and el = None and err = GeocoderUnavailable]
    find_route_input_errors [where sa = "Some ''Nowhere''" and ea = "Some ''Offline''"
      and env = "\<lparr>geocode = (\<lambda>a. if a = ''Nowhere'' then Inr None
                       else if a = ''Offline'' then Inl GeocoderUnavailable
                       else Inr (Some (Fin 40, Fin (- 74)))),
       project_geometry = (\<lambda>l. Inr l), nearest_nodes = (\<lambda>g p. Inr 1),
       astar_path = (\<lambda>e s t w. Inr [1]), route_to_gdf = (\<lambda>g p. Inr ()),
       parse_float = (\<lambda>s. None), now_hour = 9\<rparr>"
      and self = "\<lparr>G = [], w_time = Fin 1, w_noise = Fin 0, prefer_parks = False,
        avoid_junctions = False\<rparr>"
      and sh = None and sl = None and el = None and err = GeocoderUnavailable]
  by (simp add: not_address_def address_text_def)

subsection \<open>Float arithmetic\<close>

lemma fmul_commute: "fmul x y = fmul y x"
  by (cases x; cases y) (auto simp: mult.commute)

lemma fadd_commute: "fadd x y = fadd y x"
  by (cases x; cases y) (auto simp: add.commute)

lemma fadd_assoc: "fadd (fadd x y) z = fadd x (fadd y z)"
  by (cases x; cases y; cases z) (auto simp: add.assoc)

lemma fadd_zero_left: "fadd (Fin 0) x = x"
  by (cases x) auto

lemma fgt_not_feq_zero: "fgt x (Fin 0) \<Longrightarrow> \<not> feq x (Fin 0)"
  by (cases x) (auto simp: fgt_def)

subsection \<open>Edge processing\<close>

text \<open>
  C7, as stated: an edge with no \<^verbatim>\<open>highway\<close> attribute gets the weight 5. It
  gets 3: the attribute defaults to \<^verbatim>\<open>residential\<close>. Here the length is 1.
\<close>

theorem noise_cost_counterexample:
  "result_attr (process_edge (\<lambda>s. None) (\<lambda>geom. False) []
      (1, 2, 0, [''length'' \<mapsto> PFloat (Fin 1)])) ''noise_cost''
   = Some (PFloat (Fin 3))
   \<and> Fin 3 \<noteq> fmul (Fin 1) (Fin 5)"
  by (simp add: process_edge_def result_attr_def edge_attr_def dict_get_def dict_get_none_def
      DEFAULT_SPEED_def py_truediv_def noise_score_of_def in_strs_def Let_def)

text \<open>
  C7, amended. For every edge whose speed and length are numbers, processing sets
  \<^verbatim>\<open>noise_cost\<close> to length times \<open>w\<close>: 10 for the highway classes motorway, primary
  and trunk; 7 for secondary and tertiary; 3 for residential, living\_street and
  unclassified, and also when the edge has no \<^verbatim>\<open>highway\<close> attribute; 5 for every
  other value of the attribute.
\<close>

theorem noise_cost_by_road_class:
  assumes "py_float parse (dict_get d ''speed_kph'' (PInt DEFAULT_SPEED)) = Inr speed_kmh"
    and "py_float parse (dict_get d ''length'' (PFloat (Fin 0))) = Inr length_m"
    and "w = (case d ''highway'' of
               None \<Rightarrow> 3
             | Some (PStr s) \<Rightarrow>
                 if s \<in> {''motorway'', ''primary'', ''trunk''} then 10
                 else if s \<in> {''secondary'', ''tertiary''} then 7
                 else if s \<in> {''residential'', ''living_street'', ''unclassified''} then 3
                 else 5
             | Some other \<Rightarrow> 5)"
  shows "result_attr (process_edge parse near_park junction_nodes (u, v, key, d)) ''noise_cost''
           = Some (PFloat (fmul length_m (Fin w)))"
proof -
  have w: "real_of_int (noise_score_of (dict_get d ''highway'' (PStr ''residential''))) = w"
  proof (cases "d ''highway''")
    case None
    then show ?thesis
      using assms(3) by (simp add: dict_get_def noise_score_of_def in_strs_def)
  next
    case (Some x)
    then show ?thesis
      using assms(3) by (cases x) (auto simp: dict_get_def noise_score_of_def in_strs_def)
  qed
  have nz: "\<not> feq speed_kmh (Fin 0) \<Longrightarrow>
     py_truediv (fdiv length_m (Fin 1000)) speed_kmh = Inr (fdiv (fdiv length_m (Fin 1000)) speed_kmh)"
    by (simp add: py_truediv_def)
  have hw: "dict_get (d(''time_cost'' \<mapsto> x)) ''highway'' dflt = dict_get d ''highway'' dflt" for x dflt
    by (simp add: dict_get_def)
  show ?thesis
    using assms(1,2) w nz
    by (simp add: process_edge_def result_attr_def edge_attr_def py_truediv_def Let_def hw
        fmul_commute)
qed

theorem noise_cost_by_road_class_witness:
  "result_attr (process_edge (\<lambda>s. None) (\<lambda>geom. False) [7]
      (7, 8, 0, [''length'' \<mapsto> PFloat (Fin 100), ''highway'' \<mapsto> PStr ''primary''])) ''noise_cost''
   = Some (PFloat (Fin 1000))"
  using noise_cost_by_road_class [of "\<lambda>s. None"
      "[''length'' \<mapsto> PFloat (Fin 100), ''highway'' \<mapsto> PStr ''primary'']"
      "Fin 30" "Fin 100" 10 "\<lambda>geom. False" "[7]" 7 8 0]
  by (simp add: dict_get_def DEFAULT_SPEED_def)

subsection \<open>The analytics loop\<close>

lemma map_err_Nil_iff: "map_err f [] = Inr ys \<longleftrightarrow> ys = []"
  by auto

lemma map_err_Cons_iff:
  "map_err f (x # xs) = Inr ys \<longleftrightarrow>
     (\<exists>y ys'. f x = Inr y \<and> map_err f xs = Inr ys' \<and> ys = y # ys')"
  by (auto split: sum.splits)

lemma analyze_edge_read:
  "analyze_edge parse g m u v acc =
     (case read_edge parse g (u, v) of
        Inl e \<Rightarrow> Inl e
      | Inr r \<Rightarrow>
          Inr \<lparr>total_time_sec = fadd (total_time_sec acc) (r_time r),
               total_noise_weighted = fadd (total_noise_weighted acc) (fmul (r_noise r) m),
               total_length_m = fadd (total_length_m acc) (r_length r),
               time_in_green =
                 (if r_green r then fadd (time_in_green acc) (r_time r)
                  else time_in_green acc)\<rparr>)"
proof (cases "edge_data_0 g u v")
  case (Inl e)
  then show ?thesis by (simp add: analyze_edge_def read_edge_def)
next
  case (Inr d)
  show ?thesis
    unfolding analyze_edge_def read_edge_def
    by (cases "py_float parse (dict_get d ''time_cost'' (PFloat (Fin 0)))";
        cases "py_float parse (dict_get d ''noise_cost'' (PFloat (Fin 0)))";
        cases "py_float parse (dict_get d ''length'' (PFloat (Fin 0)))";
        simp add: Inr)
qed

lemma analyze_loop_error:
  "map_err (read_edge parse g) es = Inl e \<Longrightarrow> analyze_loop parse g m es acc = Inl e"
proof (induction es arbitrary: acc)
  case Nil
  then show ?case by simp
next
  case (Cons uv es)
  obtain u v where uv: "uv = (u, v)" by (cases uv)
  show ?case
    using Cons uv by (auto simp: analyze_edge_read split: sum.splits)
qed

lemma analyze_loop_sums:
  "map_err (read_edge parse g) es = Inr rs \<Longrightarrow>
   analyze_loop parse g m es acc =
     Inr \<lparr>total_time_sec = fadd (total_time_sec acc) (fsum (map r_time rs)),
          total_noise_weighted =
            fadd (total_noise_weighted acc) (fsum (map (\<lambda>r. fmul (r_noise r) m) rs)),
          total_length_m = fadd (total_length_m acc) (fsum (map r_length rs)),
          time_in_green = fadd (time_in_green acc) (fsum (map r_time (filter r_green rs)))\<rparr>"
proof (induction es arbitrary: acc rs)
  case Nil
  then show ?case
    by (cases acc) (simp add: fadd_commute [of _ "Fin 0"] fadd_zero_left)
next
  case (Cons uv es)
  obtain u v where uv: "uv = (u, v)" by (cases uv)
  from Cons.prems obtain r rs' where
    r: "read_edge parse g (u, v) = Inr r" and
    rest: "map_err (read_edge parse g) es = Inr rs'" and
    rs: "rs = r # rs'"
    unfolding uv map_err_Cons_iff by blast
  show ?case
    unfolding uv rs
    by (simp add: analyze_edge_read r Cons.IH [OF rest] fadd_assoc)
qed





lemma format_analytics_value:
  "format_analytics t =
     Inr \<lparr>time = total_time_sec t, distance = total_length_m t,
          avg_noise = (if fgt (total_length_m t) (Fin 0)
                       then fdiv (total_noise_weighted t) (total_length_m t) else Fin 0),
          green_percent = (if fgt (total_time_sec t) (Fin 0)
                           then fmul (fdiv (time_in_green t) (total_time_sec t)) (Fin 100)
                           else Fin 0)\<rparr>"
  by (auto simp: format_analytics_def py_truediv_def dest: fgt_not_feq_zero)

lemma analyze_path_value:
  assumes "map_err (read_edge parse g) (path_edges p) = Inr rs"
  shows "analyze_path parse g quiet p =
     Inr \<lparr>time = fsum (map r_time rs), distance = fsum (map r_length rs),
          avg_noise =
            (if fgt (fsum (map r_length rs)) (Fin 0)
             then fdiv (fsum (map (\<lambda>r. fmul (r_noise r) (if quiet then Fin (7 / 10) else Fin 1)) rs))
                    (fsum (map r_length rs))
             else Fin 0),
          green_percent =
            (if fgt (fsum (map r_time rs)) (Fin 0)
             then fmul (fdiv (fsum (map r_time (filter r_green rs))) (fsum (map r_time rs)))
                    (Fin 100)
             else Fin 0)\<rparr>"
  unfolding analyze_path_def analyze_loop_sums [OF assms] format_analytics_value
  by (simp add: fadd_zero_left)

lemma green_le_total:
  "\<forall>r \<in> set rs. fin_nonneg (r_time r) \<Longrightarrow>
   \<exists>a b. fsum (map r_time (filter P rs)) = Fin a \<and> fsum (map r_time rs) = Fin b
         \<and> 0 \<le> a \<and> a \<le> b"
proof (induction rs)
  case Nil
  then show ?case by simp
next
  case (Cons r rs)
  then obtain a b where ab: "fsum (map r_time (filter P rs)) = Fin a"
      "fsum (map r_time rs) = Fin b" "0 \<le> a" "a \<le> b"
    by auto
  from Cons.prems obtain x where x: "r_time r = Fin x" "0 \<le> x"
    by (cases "r_time r") auto
  show ?case
    using ab x by auto
qed



text \<open>
  C9, as stated: with non-negative \<^verbatim>\<open>time_cost\<close> values the green percentage lies
  between 0 and 100. An infinite \<^verbatim>\<open>time_cost\<close>, the value the processing gives an
  edge of speed 0, is non-negative; on a green edge it makes both sums infinite and the
  percentage NaN, which is in no interval. Finite times whose sum overflows a double do
  the same in the code.
\<close>

theorem green_percent_counterexample:
  "analyze_path (\<lambda>s. None)
     [(1, 2, 0, [''time_cost'' \<mapsto> PFloat PInf, ''noise_cost'' \<mapsto> PFloat (Fin 30),
                 ''length'' \<mapsto> PFloat (Fin 10), ''green_cover'' \<mapsto> PBool True])]
     False [1, 2]
   = Inr \<lparr>time = PInf, distance = Fin 10, avg_noise = Fin 3, green_percent = NaN\<rparr>
   \<and> fle (Fin 0) PInf
   \<and> \<not> (fle (Fin 0) NaN \<and> fle NaN (Fin 100))"
  by (simp add: analyze_path_def path_edges_def analyze_edge_def edge_data_0_def
      get_edge_data_def dict_get_def dict_get_none_def format_analytics_def py_truediv_def
      fgt_def fle_def)

text \<open>
  C9, amended. For every path whose edges with key 0 all carry a finite, non-negative
  \<^verbatim>\<open>time_cost\<close>, with a sum of at most \<open>2 ^ 1023\<close> so that the total time of the
  code cannot overflow to infinity, the analytics are computed and the green percentage
  is a number between 0 and 100: the green time is at most the total time, and the
  percentage is 0 when the total is 0.
\<close>

theorem green_percent_range:
  assumes "map_err (read_edge parse g) (path_edges p) = Inr rs"
    and "\<forall>r \<in> set rs. fin_nonneg (r_time r)"
    and "fle (fsum (map r_time rs)) (Fin (2 ^ 1023))"
  shows "\<exists>a gp. analyze_path parse g quiet p = Inr a \<and> green_percent a = Fin gp
           \<and> 0 \<le> gp \<and> gp \<le> 100
           \<and> fle (fsum (map r_time (filter r_green rs))) (time a)
           \<and> (feq (time a) (Fin 0) \<longrightarrow> gp = 0)"
proof -
  obtain a b where ab: "fsum (map r_time (filter r_green rs)) = Fin a"
      "fsum (map r_time rs) = Fin b" "0 \<le> a" "a \<le> b"
    using green_le_total [OF assms(2)] by blast
  have "a / b * 100 \<le> 100" if "0 < b"
    using that ab(4) by (simp add: field_simps)
  moreover have "0 \<le> a / b * 100"
    using ab(3,4) by simp
  ultimately show ?thesis
    using ab(3,4) unfolding analyze_path_value [OF assms(1)] ab(1,2)
    by (auto simp: fgt_def fle_def)
qed

theorem green_percent_range_witness:
  "\<exists>a gp. analyze_path (\<lambda>s. None)
       [(1, 2, 0, [''time_cost'' \<mapsto> PFloat (Fin 10), ''green_cover'' \<mapsto> PInt 1]),
        (2, 3, 0, [''time_cost'' \<mapsto> PFloat (Fin 30)])]
       True [1, 2, 3] = Inr a
     \<and> green_percent a = Fin gp \<and> 0 \<le> gp \<and> gp \<le> 100"
  using green_percent_range [of "\<lambda>s. None"
      "[(1, 2, 0, [''time_cost'' \<mapsto> PFloat (Fin 10), ''green_cover'' \<mapsto> PInt 1]),
        (2, 3, 0, [''time_cost'' \<mapsto> PFloat (Fin 30)])]"
      "[1, 2, 3]"
      "[\<lparr>r_time = Fin 10, r_noise = Fin 0, r_length = Fin 0, r_green = True\<rparr>,
        \<lparr>r_time = Fin 30, r_noise = Fin 0, r_length = Fin 0, r_green = False\<rparr>]"
      True]
  apply (simp add: path_edges_def read_edge_def edge_data_0_def get_edge_data_def dict_get_def
      dict_get_none_def fle_def)
  apply blast
  done

text \<open>
  C4, on a graph with two parallel edges from node 1 to node 2, in a quiet hour. The
  search weighs the step by the least \<^verbatim>\<open>time_cost\<close>, 10, which only the edge with
  key 1 has; the analytics report the time, length and noise of the edge with key 0.
\<close>

theorem parallel_edge_analytics:
  "choose_weight
     \<lparr>G = [(1, 2, 0, [''time_cost'' \<mapsto> PFloat (Fin 100), ''noise_cost'' \<mapsto> PFloat (Fin 900),
                       ''length'' \<mapsto> PFloat (Fin 300)]),
            (1, 2, 1, [''time_cost'' \<mapsto> PFloat (Fin 10), ''noise_cost'' \<mapsto> PFloat (Fin 240),
                       ''length'' \<mapsto> PFloat (Fin 80)])],
      w_time = Fin 1, w_noise = Fin 0, prefer_parks = False, avoid_junctions = False\<rparr> 3
   = WeightAttr ''time_cost''
   \<and> astar_step_weight (\<lambda>s. None)
       [(1, 2, 0, [''time_cost'' \<mapsto> PFloat (Fin 100), ''noise_cost'' \<mapsto> PFloat (Fin 900),
                   ''length'' \<mapsto> PFloat (Fin 300)]),
        (1, 2, 1, [''time_cost'' \<mapsto> PFloat (Fin 10), ''noise_cost'' \<mapsto> PFloat (Fin 240),
                   ''length'' \<mapsto> PFloat (Fin 80)])]
       ''time_cost'' 1 2
     = Inr (Fin 10)
   \<and> edges_of_weight (\<lambda>s. None)
       [(1, 2, 0, [''time_cost'' \<mapsto> PFloat (Fin 100), ''noise_cost'' \<mapsto> PFloat (Fin 900),
                   ''length'' \<mapsto> PFloat (Fin 300)]),
        (1, 2, 1, [''time_cost'' \<mapsto> PFloat (Fin 10), ''noise_cost'' \<mapsto> PFloat (Fin 240),
                   ''length'' \<mapsto> PFloat (Fin 80)])]
       ''time_cost'' 1 2 (Fin 10)
     = [1]
   \<and> analyze_path (\<lambda>s. None)
       [(1, 2, 0, [''time_cost'' \<mapsto> PFloat (Fin 100), ''noise_cost'' \<mapsto> PFloat (Fin 900),
                   ''length'' \<mapsto> PFloat (Fin 300)]),
        (1, 2, 1, [''time_cost'' \<mapsto> PFloat (Fin 10), ''noise_cost'' \<mapsto> PFloat (Fin 240),
                   ''length'' \<mapsto> PFloat (Fin 80)])]
       True [1, 2]
     = Inr \<lparr>time = Fin 100, distance = Fin 300, avg_noise = Fin (21 / 10),
            green_percent = Fin 0\<rparr>"
  by (simp add: choose_weight_def is_quiet_hours_def astar_step_weight_def edges_of_weight_def
      analyze_path_def path_edges_def analyze_edge_def edge_data_0_def
      get_edge_data_def dict_get_def dict_get_none_def format_analytics_def py_truediv_def
      fgt_def)

subsection \<open>Normalisation\<close>

lemma py_float_not_zero_division: "py_float parse v \<noteq> Inl ZeroDivisionError"
  by (cases v) (auto split: option.split)

lemma edge_float_not_zero_division: "edge_float parse k e \<noteq> Inl ZeroDivisionError"
  by (simp add: edge_float_def py_float_not_zero_division split: option.split)

lemma map_err_not_zero_division:
  "(\<And>x. f x \<noteq> Inl ZeroDivisionError) \<Longrightarrow> map_err f xs \<noteq> Inl ZeroDivisionError"
  by (induction xs) (auto split: sum.splits)

lemma py_min_not_zero_division: "py_min xs \<noteq> Inl ZeroDivisionError"
  by (cases xs) auto

lemma py_max_not_zero_division: "py_max xs \<noteq> Inl ZeroDivisionError"
  by (cases xs) auto

lemma cost_range_not_zero: "\<not> feq (cost_range a b) (Fin 0)"
  by (simp add: cost_range_def fgt_not_feq_zero)

lemma normalize_edge_not_zero_division:
  "\<not> feq rt (Fin 0) \<Longrightarrow> \<not> feq rn (Fin 0) \<Longrightarrow>
   normalize_edge parse mt rt mn rn e \<noteq> Inl ZeroDivisionError"
  using edge_float_not_zero_division [of parse "''time_cost''" e]
    edge_float_not_zero_division [of parse "''noise_cost''" e]
  by (auto simp: normalize_edge_def py_truediv_def split: sum.split)

lemma normalize_costs_not_zero_division:
  "normalize_costs parse g \<noteq> Inl ZeroDivisionError"
proof -
  have loop: "map_err (normalize_edge parse mt (cost_range mt xt) mn (cost_range mn xn)) g
      \<noteq> Inl ZeroDivisionError" for mt xt mn xn
    by (intro map_err_not_zero_division normalize_edge_not_zero_division cost_range_not_zero)
  have t: "map_err (edge_float parse ''time_cost'') g \<noteq> Inl ZeroDivisionError"
    by (intro map_err_not_zero_division edge_float_not_zero_division)
  have n: "map_err (edge_float parse ''noise_cost'') g \<noteq> Inl ZeroDivisionError"
    by (intro map_err_not_zero_division edge_float_not_zero_division)
  show ?thesis
    using t n loop py_min_not_zero_division py_max_not_zero_division
    by (auto simp: normalize_costs_def Let_def split: sum.split)
qed

lemma foldl_min_Fin:
  "foldl (\<lambda>m y. if flt y m then y else m) (Fin a) (map Fin xs) = Fin (fold min xs a)"
  by (induction xs arbitrary: a) (auto simp: min_def)

lemma foldl_max_Fin:
  "foldl (\<lambda>m y. if fgt y m then y else m) (Fin a) (map Fin xs) = Fin (fold max xs a)"
  by (induction xs arbitrary: a) (auto simp: max_def fgt_def)

lemma py_min_Fin: "xs \<noteq> [] \<Longrightarrow> py_min (map Fin xs) = Inr (Fin (Min (set xs)))"
  by (cases xs) (simp_all add: foldl_min_Fin Min.set_eq_fold del: set_simps)

lemma py_max_Fin: "xs \<noteq> [] \<Longrightarrow> py_max (map Fin xs) = Inr (Fin (Max (set xs)))"
  by (cases xs) (simp_all add: foldl_max_Fin Max.set_eq_fold del: set_simps)

lemma filter_finite_times:
  "\<forall>t \<in> set ts. is_fin t \<or> t = PInf \<Longrightarrow>
   filter (\<lambda>t. fne t PInf) ts = map Fin (fin_values ts)"
proof (induction ts)
  case Nil
  then show ?case by simp
next
  case (Cons t ts)
  then show ?case by (cases t) (auto simp: fne_def)
qed

lemma all_fin_values: "\<forall>n \<in> set ns. is_fin n \<Longrightarrow> ns = map Fin (fin_values ns)"
proof (induction ns)
  case Nil
  then show ?case by simp
next
  case (Cons n ns)
  then show ?case by (cases n) auto
qed

lemma cost_range_Fin:
  "lo \<le> hi \<Longrightarrow> cost_range (Fin lo) (Fin hi) = Fin (if hi - lo = 0 then 1 else hi - lo)"
  by (auto simp: cost_range_def fsub_def fgt_def)

lemma normalize_edge_value:
  assumes "edge_float parse ''time_cost'' e = Inr t" "is_fin t \<or> t = PInf"
    and "edge_float parse ''noise_cost'' e = Inr n" "is_fin n"
    and "rt = (if hi - lo = 0 then 1 else hi - lo)" "rn = (if nhi - nlo = 0 then 1 else nhi - nlo)"
  shows "normalize_edge parse (Fin lo) (Fin rt) (Fin nlo) (Fin rn) e =
           Inr (with_norms e (spec_time_norm lo hi t) (spec_noise_norm nlo nhi n))"
proof -
  have "rt \<noteq> 0" "rn \<noteq> 0"
    using assms(5,6) by auto
  then show ?thesis
    using assms(1-4) unfolding assms(5,6)
    by (cases t; cases n)
      (auto simp: normalize_edge_def with_norms_def py_truediv_def fsub_def spec_norm_def)
qed

lemma normalize_loop_value:
  assumes "rt = (if hi - lo = 0 then 1 else hi - lo)" "rn = (if nhi - nlo = 0 then 1 else nhi - nlo)"
  shows "map_err (edge_float parse ''time_cost'') g = Inr ts \<Longrightarrow>
     map_err (edge_float parse ''noise_cost'') g = Inr ns \<Longrightarrow>
     \<forall>t \<in> set ts. is_fin t \<or> t = PInf \<Longrightarrow> \<forall>n \<in> set ns. is_fin n \<Longrightarrow>
     map_err (normalize_edge parse (Fin lo) (Fin rt) (Fin nlo) (Fin rn)) g =
       Inr (map (\<lambda>etn. with_norms (fst etn) (spec_time_norm lo hi (fst (snd etn)))
                         (spec_noise_norm nlo nhi (snd (snd etn))))
              (zip g (zip ts ns)))"
proof (induction g arbitrary: ts ns)
  case Nil
  then show ?case by simp
next
  case (Cons e g)
  from Cons.prems(1) obtain t ts' where
    t: "edge_float parse ''time_cost'' e = Inr t"
      "map_err (edge_float parse ''time_cost'') g = Inr ts'" "ts = t # ts'"
    unfolding map_err_Cons_iff by blast
  from Cons.prems(2) obtain n ns' where
    n: "edge_float parse ''noise_cost'' e = Inr n"
      "map_err (edge_float parse ''noise_cost'') g = Inr ns'" "ns = n # ns'"
    unfolding map_err_Cons_iff by blast
  have ok: "is_fin t \<or> t = PInf" "is_fin n"
    using Cons.prems(3,4) t(3) n(3) by auto
  have rest: "\<forall>t \<in> set ts'. is_fin t \<or> t = PInf" "\<forall>n \<in> set ns'. is_fin n"
    using Cons.prems(3,4) t(3) n(3) by auto
  show ?case
    unfolding t(3) n(3)
    by (simp add: normalize_edge_value [OF t(1) ok(1) n(1) ok(2) assms]
        Cons.IH [OF t(2) n(2) rest])
qed

lemma map_err_length: "map_err f xs = Inr ys \<Longrightarrow> length ys = length xs"
  by (induction xs arbitrary: ys) (auto split: sum.splits)

text \<open>
  The first loop gives an edge of finite length and speed a finite time, or an infinite
  one for speed 0, and a finite noise cost: the values normalisation is stated for.
\<close>

lemma process_edge_costs:
  assumes "py_float parse (dict_get d ''speed_kph'' (PInt DEFAULT_SPEED)) = Inr (Fin s)"
    and "py_float parse (dict_get d ''length'' (PFloat (Fin 0))) = Inr (Fin l)"
  shows "\<exists>e. process_edge parse near_park junction_nodes (u, v, key, d) = Inr e
           \<and> edge_float parse ''time_cost'' e =
               Inr (if s = 0 then PInf else Fin (l / 1000 / s * 3600))
           \<and> edge_float parse ''noise_cost'' e =
               Inr (Fin (real_of_int (noise_score_of (dict_get d ''highway'' (PStr ''residential''))) * l))"
proof -
  have hw: "dict_get (d(''time_cost'' \<mapsto> x)) ''highway'' dflt = dict_get d ''highway'' dflt"
    for x dflt
    by (simp add: dict_get_def)
  show ?thesis
    using assms
    by (simp add: process_edge_def edge_float_def py_truediv_def Let_def hw)
qed

text \<open>
  C6. On a graph whose edges carry a finite or infinite \<^verbatim>\<open>time_cost\<close>, at least one
  of them finite, and a finite \<^verbatim>\<open>noise_cost\<close>, normalisation stores in every edge
  \<^verbatim>\<open>time_cost_norm\<close> = (time\_cost - min) / (max - min), with min and max over the
  finite values only, 1.0 where the time is infinite, and \<^verbatim>\<open>noise_cost_norm\<close> by the
  same formula over the noise costs; the denominator is 1.0 when the range is zero. So
  when all finite times are equal every edge of finite time gets 0.0. On no graph at all
  does normalisation divide by zero.
\<close>

theorem normalize_costs_min_max:
  assumes "map_err (edge_float parse ''time_cost'') g = Inr ts"
    and "map_err (edge_float parse ''noise_cost'') g = Inr ns"
    and "\<forall>t \<in> set ts. is_fin t \<or> t = PInf"
    and "\<forall>n \<in> set ns. is_fin n"
    and "fin_values ts \<noteq> []"
    and "lo = Min (set (fin_values ts))" and "hi = Max (set (fin_values ts))"
    and "nlo = Min (set (fin_values ns))" and "nhi = Max (set (fin_values ns))"
  shows "normalize_costs parse g =
           Inr (map (\<lambda>etn. with_norms (fst etn) (spec_time_norm lo hi (fst (snd etn)))
                             (spec_noise_norm nlo nhi (snd (snd etn))))
                  (zip g (zip ts ns)))
         \<and> ((\<forall>a \<in> set (fin_values ts). a = c) \<longrightarrow>
              (\<forall>t \<in> set ts. is_fin t \<longrightarrow> spec_time_norm lo hi t = Fin 0))
         \<and> (\<forall>parse' g'. normalize_costs parse' g' \<noteq> Inl ZeroDivisionError)"
proof -
  let ?fts = "fin_values ts" and ?fns = "fin_values ns"
  have ns: "ns = map Fin ?fns"
    using all_fin_values [OF assms(4)] .
  have "length ts = length g" "length ns = length g"
    using assms(1,2) by (simp_all add: map_err_length)
  moreover have "ts \<noteq> []"
    using assms(5) by auto
  ultimately have "ns \<noteq> []"
    by auto
  then have fns: "?fns \<noteq> []"
    using ns by auto
  have times: "filter (\<lambda>t. fne t PInf) ts = map Fin ?fts"
    using filter_finite_times [OF assms(3)] .
  have lohi: "lo \<le> hi"
    unfolding assms(6,7) using assms(5) by (simp add: Min_le_iff)
  have nlohi: "nlo \<le> nhi"
    unfolding assms(8,9) using fns by (simp add: Min_le_iff)
  have mins: "py_min (filter (\<lambda>t. fne t PInf) ts) = Inr (Fin lo)"
      "py_max (filter (\<lambda>t. fne t PInf) ts) = Inr (Fin hi)"
    unfolding times assms(6,7) using assms(5) by (simp_all add: py_min_Fin py_max_Fin)
  have nmins: "py_min ns = Inr (Fin nlo)" "py_max ns = Inr (Fin nhi)"
    unfolding assms(8,9) using fns py_min_Fin [of ?fns] py_max_Fin [of ?fns] ns by simp_all
  have main: "normalize_costs parse g =
           Inr (map (\<lambda>etn. with_norms (fst etn) (spec_time_norm lo hi (fst (snd etn)))
                             (spec_noise_norm nlo nhi (snd (snd etn))))
                  (zip g (zip ts ns)))"
    using normalize_loop_value [OF refl refl assms(1,2,3,4),
        where hi = hi and lo = lo and nhi = nhi and nlo = nlo]
    by (simp add: normalize_costs_def assms(1,2) Let_def mins nmins
        cost_range_Fin [OF lohi] cost_range_Fin [OF nlohi])
  have equal: "spec_time_norm lo hi t = Fin 0"
    if eq: "\<forall>a \<in> set ?fts. a = c" and t: "t \<in> set ts" "is_fin t" for t
  proof -
    from t(2) obtain a where a: "t = Fin a" by (cases t) auto
    have "a \<in> set ?fts"
      using t(1) unfolding a by (induction ts rule: fin_values.induct) auto
    then have "a = c" using eq by blast
    moreover have "lo \<in> set ?fts"
      unfolding assms(6) using assms(5) by (intro Min_in) auto
    then have "lo = c" using eq by blast
    ultimately show ?thesis
      by (simp add: a spec_norm_def)
  qed
  show ?thesis
    using main equal normalize_costs_not_zero_division by blast
qed

theorem normalize_costs_min_max_witness:
  "normalize_costs (\<lambda>s. None)
     [(1, 2, 0, [''time_cost'' \<mapsto> PFloat (Fin 5), ''noise_cost'' \<mapsto> PFloat (Fin 30)]),
      (2, 3, 0, [''time_cost'' \<mapsto> PFloat PInf, ''noise_cost'' \<mapsto> PFloat (Fin 50)]),
      (3, 1, 0, [''time_cost'' \<mapsto> PFloat (Fin 5), ''noise_cost'' \<mapsto> PFloat (Fin 70)])]
   = Inr
     [with_norms
        (1, 2, 0, [''time_cost'' \<mapsto> PFloat (Fin 5), ''noise_cost'' \<mapsto> PFloat (Fin 30)])
        (Fin 0) (Fin 0),
      with_norms
        (2, 3, 0, [''time_cost'' \<mapsto> PFloat PInf, ''noise_cost'' \<mapsto> PFloat (Fin 50)])
        (Fin 1) (Fin (1 / 2)),
      with_norms
        (3, 1, 0, [''time_cost'' \<mapsto> PFloat (Fin 5), ''noise_cost'' \<mapsto> PFloat (Fin 70)])
        (Fin 0) (Fin 1)]"
  using normalize_costs_min_max [of "\<lambda>s. None"
      "[(1, 2, 0, [''time_cost'' \<mapsto> PFloat (Fin 5), ''noise_cost'' \<mapsto> PFloat (Fin 30)]),
        (2, 3, 0, [''time_cost'' \<mapsto> PFloat PInf, ''noise_cost'' \<mapsto> PFloat (Fin 50)]),
        (3, 1, 0, [''time_cost'' \<mapsto> PFloat (Fin 5), ''noise_cost'' \<mapsto> PFloat (Fin 70)])]"
      "[Fin 5, PInf, Fin 5]" "[Fin 30, Fin 50, Fin 70]" 5 5 30 70 5]
  by (simp add: edge_float_def spec_norm_def)

end
